theory Spec2Isabelle
  imports Complex_Main "HOL-Library.Monad_Syntax"
begin

section \<open>The affordability computation of \<open>src/App.tsx\<close>\<close>

text \<open>
  The component \<open>App\<close> holds one \<open>DebtInput\<close> in its state and, on every render, derives
  four values from it: \<open>debtToIncomeRatio\<close>, \<open>monthlyPayment\<close>, \<open>paymentToIncomeRatio\<close>
  and \<open>affordabilityStatus\<close> (with \<open>affordabilityColor\<close>). Everything below is that
  derivation, one definition per \<open>const\<close>/\<open>let\<close> of the source, in the source's order.

  Numbers. The source's \<open>number\<close> is an IEEE-754 double, and the derivation is given
  two readings. The exact reading, first, takes the three amounts as reals and does not
  round: it is the formulas that the code writes down, and it carries the properties of
  branch structure, guards and thresholds. The binary64 reading, second, rounds after
  every operation as the code does, and decides the properties that depend on the
  values computed. \<open>repaymentTerm\<close> only ever receives \<open>parseInt(...) || 0\<close> (or the
  initial \<open>10\<close>), so it is an integer, and \<open>totalPayments\<close> with it.
\<close>

subsection \<open>Data\<close>

record DebtInput =
  totalDebt :: real
  annualSalary :: real
  interestRate :: real
  repaymentTerm :: int

text \<open>What a render shows of the computation.\<close>

record AffordabilityResult =
  out_debtToIncomeRatio :: real
  out_monthlyPayment :: real
  out_paymentToIncomeRatio :: real
  out_affordabilityStatus :: string
  out_affordabilityColor :: string

subsection \<open>Arithmetic of the source\<close>

text \<open>
  A division by a variable. In JavaScript \<open>x / 0\<close> does not throw: it is \<open>Infinity\<close>,
  \<open>-Infinity\<close> or \<open>NaN\<close>, none of which is a real number. The model returns \<open>None\<close>
  there, so that a division by zero is a visible branch. Divisions by the literals
  \<open>100\<close> and \<open>12\<close> are written with the plain \<open>/\<close>.
\<close>

definition js_div :: "real \<Rightarrow> real \<Rightarrow> real option" where
  "js_div x y = (if y = 0 then None else Some (x / y))"

text \<open>
  \<open>Math.pow\<close> at an integer exponent: the iterated product, or its reciprocal for a
  negative exponent. \<open>Math.pow(0, -1)\<close> is \<open>Infinity\<close>, again \<open>None\<close> here.
\<close>

definition Math_pow :: "real \<Rightarrow> int \<Rightarrow> real option" where
  "Math_pow x n =
     (if 0 \<le> n then Some (x ^ nat n)
      else if x = 0 then None
      else Some (inverse (x ^ nat (- n))))"

subsection \<open>The derived values\<close>

text \<open>Line 25.\<close>

definition debtToIncomeRatio :: "'a DebtInput_scheme \<Rightarrow> real option" where
  "debtToIncomeRatio vals =
     (if annualSalary vals > 0 then js_div (totalDebt vals) (annualSalary vals) else Some 0)"

text \<open>
  Lines 28 to 35. \<open>monthlyPayment\<close> starts at \<open>0\<close> and is assigned in at most one of the
  two branches. Line 32 calls \<open>Math.pow\<close> twice on the same arguments; the model binds
  the value once.
\<close>

definition monthlyRate :: "'a DebtInput_scheme \<Rightarrow> real" where
  "monthlyRate vals = interestRate vals / 100 / 12"

definition totalPayments :: "'a DebtInput_scheme \<Rightarrow> int" where
  "totalPayments vals = repaymentTerm vals * 12"

definition monthlyPayment :: "'a DebtInput_scheme \<Rightarrow> real option" where
  "monthlyPayment vals =
     (if monthlyRate vals > 0 \<and> totalPayments vals > 0 then
        do {
          p \<leftarrow> Math_pow (1 + monthlyRate vals) (totalPayments vals);
          js_div (totalDebt vals * monthlyRate vals * p) (p - 1)
        }
      else if totalPayments vals > 0 then
        js_div (totalDebt vals) (real_of_int (totalPayments vals))
      else Some 0)"

text \<open>Lines 38 and 39. The ternary reads \<open>monthlyPayment\<close> only in its first branch.\<close>

definition monthlyGrossIncome :: "'a DebtInput_scheme \<Rightarrow> real" where
  "monthlyGrossIncome vals = annualSalary vals / 12"

definition paymentToIncomeRatio :: "'a DebtInput_scheme \<Rightarrow> real option" where
  "paymentToIncomeRatio vals =
     (if monthlyGrossIncome vals > 0 then
        do {
          m \<leftarrow> monthlyPayment vals;
          q \<leftarrow> js_div m (monthlyGrossIncome vals);
          Some (q * 100)
        }
      else Some 0)"

text \<open>
  Lines 42 to 50: both variables start at the \<open>Comfortable\<close> values and are overwritten
  by the first comparison that holds.
\<close>

definition affordability :: "real \<Rightarrow> string \<times> string" where
  "affordability p =
     (if p > 20 then (''Stretched'', ''#DC2626'')
      else if p > 10 then (''Moderate'', ''#D97706'')
      else (''Comfortable'', ''#16A34A''))"

definition affordabilityStatus :: "real \<Rightarrow> string" where
  "affordabilityStatus p = fst (affordability p)"

definition affordabilityColor :: "real \<Rightarrow> string" where
  "affordabilityColor p = snd (affordability p)"

text \<open>The computation of one render, lines 25 to 50.\<close>

definition App :: "'a DebtInput_scheme \<Rightarrow> AffordabilityResult option" where
  "App vals =
     do {
       d \<leftarrow> debtToIncomeRatio vals;
       m \<leftarrow> monthlyPayment vals;
       p \<leftarrow> paymentToIncomeRatio vals;
       Some \<lparr> out_debtToIncomeRatio = d,
              out_monthlyPayment = m,
              out_paymentToIncomeRatio = p,
              out_affordabilityStatus = affordabilityStatus p,
              out_affordabilityColor = affordabilityColor p \<rparr>
     }"

subsection \<open>The monthly payment as the specification words it\<close>

text \<open>
  Section 4.1, step 2, of the specification, over its own names: the amortising formula
  when both the monthly rate and the number of payments are positive, the straight-line
  division when only the number of payments is, and zero otherwise. The specification's
  \<open>repaymentTerm\<close> is a non-negative integer.
\<close>

definition spec_monthlyPayment :: "real \<Rightarrow> real \<Rightarrow> nat \<Rightarrow> real" where
  "spec_monthlyPayment debt rate term =
     (let r = rate / 100 / 12; n = term * 12 in
      if r > 0 \<and> n > 0 then debt * r * (1 + r) ^ n / ((1 + r) ^ n - 1)
      else if n > 0 then debt / real n
      else 0)"

section \<open>The same lines in binary64\<close>

text \<open>
  The second reading computes as the code does: every value is a double, and every
  operation returns the double nearest to its exact result.
\<close>

subsection \<open>Doubles and rounding\<close>

text \<open>
  A double is a finite value, an infinity or \<open>NaN\<close>. The finite values are the reals
  \<open>m * 2^e\<close> with \<open>|m| < 2^53\<close> and \<open>-1074 \<le> e \<le> 971\<close>. There is one zero; it stands for
  \<open>+0\<close>, the only zero that the non-negative inputs considered below produce.
\<close>

datatype double = Finite real | PosInf | NegInf | NaN

definition pow2 :: "int \<Rightarrow> real" where
  "pow2 e = (if 0 \<le> e then 2 ^ nat e else 1 / 2 ^ nat (- e))"

text \<open>
  The binary exponent of a positive real, the floor of its binary logarithm, kept within the exponents of
  normal doubles, \<open>-1022\<close> to \<open>1023\<close>. It is found by doubling or halving a power of two,
  in at most \<open>1023\<close> steps.
\<close>

fun expo_up :: "nat \<Rightarrow> int \<Rightarrow> real \<Rightarrow> real \<Rightarrow> int" where
  "expo_up 0 e p x = e"
| "expo_up (Suc k) e p x = (if x < 2 * p then e else expo_up k (e + 1) (2 * p) x)"

fun expo_down :: "nat \<Rightarrow> int \<Rightarrow> real \<Rightarrow> real \<Rightarrow> int" where
  "expo_down 0 e p x = e"
| "expo_down (Suc k) e p x = (if p \<le> x then e else expo_down k (e - 1) (p / 2) x)"

definition expo :: "real \<Rightarrow> int" where
  "expo x = (if 1 \<le> x then expo_up 1023 0 1 x else expo_down 1022 0 1 x)"

text \<open>The nearest integer, a tie going to the even one.\<close>

definition round_even :: "real \<Rightarrow> int" where
  "round_even y =
     (let f = \<lfloor>y\<rfloor>; d = y - real_of_int f in
      if d < 1 / 2 then f
      else if 1 / 2 < d then f + 1
      else if even f then f else f + 1)"

text \<open>
  Rounding to nearest, ties to even. Around \<open>x\<close> the doubles are the multiples of
  \<open>2^(expo |x| - 52)\<close>, which covers the subnormal range since \<open>expo\<close> stops at \<open>-1022\<close>.
  From \<open>2^1024 - 2^970\<close> on, half a step above the largest double, the result is an
  infinity.
\<close>

definition round64 :: "real \<Rightarrow> double" where
  "round64 x =
     (if x = 0 then Finite 0
      else if 2 ^ 1024 - 2 ^ 970 \<le> \<bar>x\<bar> then (if 0 < x then PosInf else NegInf)
      else let e = expo \<bar>x\<bar> - 52 in Finite (real_of_int (round_even (x / pow2 e)) * pow2 e))"

subsection \<open>The operators of the source\<close>

fun neg64 :: "double \<Rightarrow> double" where
  "neg64 (Finite x) = Finite (- x)"
| "neg64 PosInf = NegInf"
| "neg64 NegInf = PosInf"
| "neg64 NaN = NaN"

fun add64 :: "double \<Rightarrow> double \<Rightarrow> double" where
  "add64 NaN b = NaN"
| "add64 a NaN = NaN"
| "add64 (Finite x) (Finite y) = round64 (x + y)"
| "add64 (Finite x) b = b"
| "add64 a (Finite y) = a"
| "add64 PosInf PosInf = PosInf"
| "add64 NegInf NegInf = NegInf"
| "add64 PosInf NegInf = NaN"
| "add64 NegInf PosInf = NaN"

definition sub64 :: "double \<Rightarrow> double \<Rightarrow> double" where
  "sub64 a b = add64 a (neg64 b)"

fun mul64 :: "double \<Rightarrow> double \<Rightarrow> double" where
  "mul64 NaN b = NaN"
| "mul64 a NaN = NaN"
| "mul64 (Finite x) (Finite y) = round64 (x * y)"
| "mul64 (Finite x) PosInf = (if x = 0 then NaN else if 0 < x then PosInf else NegInf)"
| "mul64 (Finite x) NegInf = (if x = 0 then NaN else if 0 < x then NegInf else PosInf)"
| "mul64 PosInf (Finite y) = (if y = 0 then NaN else if 0 < y then PosInf else NegInf)"
| "mul64 NegInf (Finite y) = (if y = 0 then NaN else if 0 < y then NegInf else PosInf)"
| "mul64 PosInf PosInf = PosInf"
| "mul64 NegInf NegInf = PosInf"
| "mul64 PosInf NegInf = NegInf"
| "mul64 NegInf PosInf = NegInf"

text \<open>
  Division does not fail: a finite non-zero value over zero is an infinity, and
  \<open>0 / 0\<close> and \<open>Infinity / Infinity\<close> are \<open>NaN\<close>.
\<close>

fun div64 :: "double \<Rightarrow> double \<Rightarrow> double" where
  "div64 NaN b = NaN"
| "div64 a NaN = NaN"
| "div64 (Finite x) (Finite y) =
     (if y = 0 then (if x = 0 then NaN else if 0 < x then PosInf else NegInf)
      else round64 (x / y))"
| "div64 (Finite x) b = Finite 0"
| "div64 PosInf (Finite y) = (if 0 \<le> y then PosInf else NegInf)"
| "div64 NegInf (Finite y) = (if 0 \<le> y then NegInf else PosInf)"
| "div64 a b = NaN"

text \<open>The comparisons \<open>>\<close> and \<open>>=\<close>. Both are false when an operand is \<open>NaN\<close>.\<close>

fun gt64 :: "double \<Rightarrow> double \<Rightarrow> bool" where
  "gt64 NaN b = False"
| "gt64 a NaN = False"
| "gt64 (Finite x) (Finite y) = (y < x)"
| "gt64 a PosInf = False"
| "gt64 NegInf b = False"
| "gt64 PosInf b = True"
| "gt64 a NegInf = True"

fun ge64 :: "double \<Rightarrow> double \<Rightarrow> bool" where
  "ge64 NaN b = False"
| "ge64 a NaN = False"
| "ge64 (Finite x) (Finite y) = (y \<le> x)"
| "ge64 PosInf b = True"
| "ge64 a NegInf = True"
| "ge64 a PosInf = False"
| "ge64 NegInf b = False"

subsection \<open>Lines 25 to 39\<close>

text \<open>
  The fields of the input are the numbers as typed. \<open>parseInt\<close> and \<open>parseFloat\<close> store
  the nearest double, so every field is read through \<open>round64\<close>. The literals \<open>0\<close>, \<open>1\<close>,
  \<open>12\<close> and \<open>100\<close> are doubles as they stand.

  \<open>Math.pow\<close> is a library function whose precision ECMAScript leaves to the
  implementation. It is the parameter \<open>mpow\<close>.
\<close>

definition debtToIncomeRatio64 :: "'a DebtInput_scheme \<Rightarrow> double" where
  "debtToIncomeRatio64 vals =
     (if gt64 (round64 (annualSalary vals)) (Finite 0)
      then div64 (round64 (totalDebt vals)) (round64 (annualSalary vals))
      else Finite 0)"

definition monthlyRate64 :: "'a DebtInput_scheme \<Rightarrow> double" where
  "monthlyRate64 vals = div64 (div64 (round64 (interestRate vals)) (Finite 100)) (Finite 12)"

definition totalPayments64 :: "'a DebtInput_scheme \<Rightarrow> double" where
  "totalPayments64 vals = mul64 (round64 (real_of_int (repaymentTerm vals))) (Finite 12)"

definition monthlyPayment64 ::
    "(double \<Rightarrow> double \<Rightarrow> double) \<Rightarrow> 'a DebtInput_scheme \<Rightarrow> double" where
  "monthlyPayment64 mpow vals =
     (if gt64 (monthlyRate64 vals) (Finite 0) \<and> gt64 (totalPayments64 vals) (Finite 0) then
        div64
          (mul64 (mul64 (round64 (totalDebt vals)) (monthlyRate64 vals))
             (mpow (add64 (Finite 1) (monthlyRate64 vals)) (totalPayments64 vals)))
          (sub64 (mpow (add64 (Finite 1) (monthlyRate64 vals)) (totalPayments64 vals)) (Finite 1))
      else if gt64 (totalPayments64 vals) (Finite 0) then
        div64 (round64 (totalDebt vals)) (totalPayments64 vals)
      else Finite 0)"

definition monthlyGrossIncome64 :: "'a DebtInput_scheme \<Rightarrow> double" where
  "monthlyGrossIncome64 vals = div64 (round64 (annualSalary vals)) (Finite 12)"

definition paymentToIncomeRatio64 ::
    "(double \<Rightarrow> double \<Rightarrow> double) \<Rightarrow> 'a DebtInput_scheme \<Rightarrow> double" where
  "paymentToIncomeRatio64 mpow vals =
     (if gt64 (monthlyGrossIncome64 vals) (Finite 0)
      then mul64 (div64 (monthlyPayment64 mpow vals) (monthlyGrossIncome64 vals)) (Finite 100)
      else Finite 0)"

text \<open>
  One function that \<open>mpow\<close> can be: the correctly rounded power, for a finite base and an
  exponent that is a non-negative integer. Line 32 passes such arguments whenever the
  input is finite: the base is \<open>1 + monthlyRate\<close> and the exponent is \<open>repaymentTerm * 12\<close>
  under the guard \<open>totalPayments > 0\<close>. Elsewhere it is \<open>NaN\<close> and is not evaluated. At base
  \<open>1\<close> the exact power is \<open>1\<close>, and every implementation of \<open>Math.pow\<close> returns it.
\<close>

definition rounded_power :: "double \<Rightarrow> double \<Rightarrow> double" where
  "rounded_power b e =
     (case (b, e) of
        (Finite x, Finite y) \<Rightarrow>
          if 0 \<le> y \<and> y = real_of_int \<lfloor>y\<rfloor> then round64 (x ^ nat \<lfloor>y\<rfloor>) else NaN
      | _ \<Rightarrow> NaN)"

section \<open>Properties\<close>

subsection \<open>The amortising formula\<close>

lemma Math_pow_pos_exponent: "0 < n \<Longrightarrow> Math_pow x n = Some (x ^ nat n)"
  by (simp add: Math_pow_def)

lemma amortization_denominator_pos:
  fixes r :: real and n :: int
  assumes "0 < r" and "0 < n"
  shows "0 < (1 + r) ^ nat n - 1"
proof -
  have "0 < nat n" using assms(2) by simp
  moreover have "1 < 1 + r" using assms(1) by simp
  ultimately have "1 < (1 + r) ^ nat n"
    by (simp add: one_less_power)
  then show ?thesis by simp
qed








subsection \<open>The three branches of \<open>monthlyPayment\<close>\<close>

lemma monthlyPayment_amortized:
  assumes "0 < monthlyRate vals" "0 < totalPayments vals"
  shows "monthlyPayment vals =
    Some (totalDebt vals * monthlyRate vals * (1 + monthlyRate vals) ^ nat (totalPayments vals) /
          ((1 + monthlyRate vals) ^ nat (totalPayments vals) - 1))"
proof -
  have "0 < (1 + monthlyRate vals) ^ nat (totalPayments vals) - 1"
    using amortization_denominator_pos [OF assms] .
  then have "(1 + monthlyRate vals) ^ nat (totalPayments vals) \<noteq> 1"
    by simp
  then show ?thesis
    using assms by (simp add: monthlyPayment_def js_div_def Math_pow_pos_exponent)
qed

lemma monthlyPayment_linear:
  assumes "\<not> 0 < monthlyRate vals" "0 < totalPayments vals"
  shows "monthlyPayment vals = Some (totalDebt vals / real_of_int (totalPayments vals))"
  using assms by (simp add: monthlyPayment_def js_div_def)

lemma monthlyPayment_zero:
  assumes "\<not> 0 < totalPayments vals"
  shows "monthlyPayment vals = Some 0"
  using assms by (simp add: monthlyPayment_def)

subsection \<open>Every division has a non-zero denominator\<close>

lemma debtToIncomeRatio_total: "\<exists>d. debtToIncomeRatio vals = Some d"
  by (simp add: debtToIncomeRatio_def js_div_def)

lemma monthlyPayment_total: "\<exists>m. monthlyPayment vals = Some m"
proof (cases "0 < totalPayments vals")
  case False
  then show ?thesis by (simp add: monthlyPayment_zero)
next
  case True
  then show ?thesis
    by (cases "0 < monthlyRate vals")
      (simp_all add: monthlyPayment_amortized monthlyPayment_linear)
qed

lemma paymentToIncomeRatio_total: "\<exists>p. paymentToIncomeRatio vals = Some p"
  using monthlyPayment_total [of vals]
  by (auto simp: paymentToIncomeRatio_def js_div_def)

lemma App_total: "\<exists>res. App vals = Some res"
  using debtToIncomeRatio_total [of vals] monthlyPayment_total [of vals]
    paymentToIncomeRatio_total [of vals]
  by (auto simp: App_def)

lemma App_fields:
  assumes "App vals = Some res"
  shows "debtToIncomeRatio vals = Some (out_debtToIncomeRatio res)"
    and "monthlyPayment vals = Some (out_monthlyPayment res)"
    and "paymentToIncomeRatio vals = Some (out_paymentToIncomeRatio res)"
    and "out_affordabilityStatus res = affordabilityStatus (out_paymentToIncomeRatio res)"
    and "out_affordabilityColor res = affordabilityColor (out_paymentToIncomeRatio res)"
  using assms by (auto simp: App_def split: bind_splits)

subsection \<open>Monotonicity in the debt\<close>

lemma debtToIncomeRatio_mono:
  assumes "annualSalary a = annualSalary b" "totalDebt a \<le> totalDebt b"
    "debtToIncomeRatio a = Some x" "debtToIncomeRatio b = Some y"
  shows "x \<le> y"
  using assms by (auto simp: debtToIncomeRatio_def js_div_def divide_right_mono split: if_splits)

lemma monthlyPayment_mono_debt:
  assumes "interestRate a = interestRate b" "repaymentTerm a = repaymentTerm b"
    "totalDebt a \<le> totalDebt b"
    "monthlyPayment a = Some x" "monthlyPayment b = Some y"
  shows "x \<le> y"
proof -
  have r: "monthlyRate a = monthlyRate b" and n: "totalPayments a = totalPayments b"
    using assms(1,2) by (simp_all add: monthlyRate_def totalPayments_def)
  show ?thesis
  proof (cases "0 < totalPayments b")
    case False
    then show ?thesis using assms(4,5) n by (simp add: monthlyPayment_zero)
  next
    case tp: True
    show ?thesis
    proof (cases "0 < monthlyRate b")
      case False
      have "totalDebt a / real_of_int (totalPayments b) \<le> totalDebt b / real_of_int (totalPayments b)"
        using assms(3) tp by (simp add: divide_right_mono)
      then show ?thesis
        using assms(4,5) False tp r n by (simp add: monthlyPayment_linear)
    next
      case True
      let ?P = "(1 + monthlyRate b) ^ nat (totalPayments b)"
      have den: "0 < ?P - 1"
        using amortization_denominator_pos [OF True tp] .
      have "0 \<le> monthlyRate b * ?P" using True by simp
      then have "totalDebt a * (monthlyRate b * ?P) \<le> totalDebt b * (monthlyRate b * ?P)"
        using assms(3) by (rule mult_right_mono [rotated])
      then have "totalDebt a * monthlyRate b * ?P / (?P - 1) \<le>
          totalDebt b * monthlyRate b * ?P / (?P - 1)"
        using den by (simp add: divide_right_mono mult.assoc)
      then show ?thesis
        using assms(4,5) True tp r n by (simp add: monthlyPayment_amortized)
    qed
  qed
qed

lemma paymentToIncomeRatio_mono:
  assumes "annualSalary a = annualSalary b"
    "monthlyPayment a = Some x" "monthlyPayment b = Some y" "x \<le> y"
    "paymentToIncomeRatio a = Some p" "paymentToIncomeRatio b = Some q"
  shows "p \<le> q"
  using assms
  by (auto simp: paymentToIncomeRatio_def monthlyGrossIncome_def js_div_def divide_right_mono
      split: if_splits)

subsection \<open>Signs\<close>

lemma debtToIncomeRatio_nonneg:
  assumes "0 \<le> totalDebt vals" "debtToIncomeRatio vals = Some d"
  shows "0 \<le> d"
  using assms by (auto simp: debtToIncomeRatio_def js_div_def split: if_splits)

lemma monthlyPayment_nonneg:
  assumes "0 \<le> totalDebt vals" "monthlyPayment vals = Some m"
  shows "0 \<le> m"
proof (cases "0 < totalPayments vals")
  case False
  then show ?thesis using assms(2) by (simp add: monthlyPayment_zero)
next
  case tp: True
  show ?thesis
  proof (cases "0 < monthlyRate vals")
    case False
    then show ?thesis
      using assms tp by (auto simp: monthlyPayment_linear)
  next
    case True
    let ?P = "(1 + monthlyRate vals) ^ nat (totalPayments vals)"
    have "0 < ?P - 1"
      using amortization_denominator_pos [OF True tp] .
    moreover have "0 \<le> totalDebt vals * monthlyRate vals * ?P"
      using assms(1) True by simp
    ultimately have "0 \<le> totalDebt vals * monthlyRate vals * ?P / (?P - 1)"
      by (intro divide_nonneg_pos)
    then show ?thesis
      using assms(2) True tp by (simp add: monthlyPayment_amortized)
  qed
qed

lemma paymentToIncomeRatio_nonneg:
  assumes "0 \<le> totalDebt vals" "paymentToIncomeRatio vals = Some p"
  shows "0 \<le> p"
proof (cases "0 < monthlyGrossIncome vals")
  case False
  then show ?thesis using assms(2) by (simp add: paymentToIncomeRatio_def)
next
  case True
  obtain m where m: "monthlyPayment vals = Some m"
    using monthlyPayment_total by blast
  have "0 \<le> m" using monthlyPayment_nonneg [OF assms(1) m] .
  then have "0 \<le> m / monthlyGrossIncome vals * 100"
    using True by simp
  then show ?thesis
    using assms(2) True m by (auto simp: paymentToIncomeRatio_def js_div_def)
qed

subsection \<open>Monotonicity in the interest rate\<close>



subsection \<open>The exact reading is monotone in the debt, non-negative and total\<close>

lemma exact_outputs_mono_in_totalDebt:
  assumes "annualSalary a = annualSalary b" "interestRate a = interestRate b"
    "repaymentTerm a = repaymentTerm b" "0 \<le> totalDebt a" "totalDebt a \<le> totalDebt b"
  shows "\<exists>ra rb. App a = Some ra \<and> App b = Some rb \<and>
    out_monthlyPayment ra \<le> out_monthlyPayment rb \<and>
    out_debtToIncomeRatio ra \<le> out_debtToIncomeRatio rb \<and>
    out_paymentToIncomeRatio ra \<le> out_paymentToIncomeRatio rb"
proof -
  obtain ra rb where ra: "App a = Some ra" and rb: "App b = Some rb"
    using App_total [of a] App_total [of b] by blast
  note fa = App_fields [OF ra] and fb = App_fields [OF rb]
  have m: "out_monthlyPayment ra \<le> out_monthlyPayment rb"
    using monthlyPayment_mono_debt [OF assms(2,3,5) fa(2) fb(2)] .
  have d: "out_debtToIncomeRatio ra \<le> out_debtToIncomeRatio rb"
    using debtToIncomeRatio_mono [OF assms(1,5) fa(1) fb(1)] .
  have p: "out_paymentToIncomeRatio ra \<le> out_paymentToIncomeRatio rb"
    using paymentToIncomeRatio_mono [OF assms(1) fa(2) fb(2) m fa(3) fb(3)] .
  from ra rb m d p show ?thesis by blast
qed

lemma exact_outputs_nonneg:
  assumes "0 \<le> totalDebt vals" "0 \<le> annualSalary vals" "0 \<le> interestRate vals"
    "0 \<le> repaymentTerm vals"
  shows "(\<exists>res. App vals = Some res \<and> 0 \<le> out_debtToIncomeRatio res \<and>
      0 \<le> out_monthlyPayment res \<and> 0 \<le> out_paymentToIncomeRatio res) \<and>
    (0 < monthlyRate vals \<and> 0 < totalPayments vals \<longrightarrow>
      (\<exists>p. Math_pow (1 + monthlyRate vals) (totalPayments vals) = Some p \<and> 0 < p - 1))"
proof -
  obtain res where res: "App vals = Some res"
    using App_total by blast
  note f = App_fields [OF res]
  have "0 \<le> out_debtToIncomeRatio res"
    using debtToIncomeRatio_nonneg [OF assms(1) f(1)] .
  moreover have "0 \<le> out_monthlyPayment res"
    using monthlyPayment_nonneg [OF assms(1) f(2)] .
  moreover have "0 \<le> out_paymentToIncomeRatio res"
    using paymentToIncomeRatio_nonneg [OF assms(1) f(3)] .
  moreover have "\<exists>p. Math_pow (1 + monthlyRate vals) (totalPayments vals) = Some p \<and> 0 < p - 1"
    if "0 < monthlyRate vals" "0 < totalPayments vals"
    using amortization_denominator_pos [OF that] that(2)
    by (simp add: Math_pow_pos_exponent)
  ultimately show ?thesis
    using res by blast
qed

lemma exact_engine_total:
  assumes "0 \<le> totalDebt vals" "0 \<le> annualSalary vals" "0 \<le> interestRate vals"
    "0 \<le> repaymentTerm vals"
  shows "debtToIncomeRatio vals \<noteq> None \<and> monthlyPayment vals \<noteq> None \<and>
    paymentToIncomeRatio vals \<noteq> None \<and> (\<exists>res. App vals = Some res)"
  using debtToIncomeRatio_total [of vals] monthlyPayment_total [of vals]
    paymentToIncomeRatio_total [of vals] App_total [of vals]
  by auto

subsection \<open>Evaluating the binary64 reading\<close>

lemma expo_up_numeral:
  "expo_up (numeral k) e p x =
     (if x < 2 * p then e else expo_up (pred_numeral k) (e + 1) (2 * p) x)"
  by (simp add: numeral_eq_Suc)

lemma expo_down_numeral:
  "expo_down (numeral k) e p x =
     (if p \<le> x then e else expo_down (pred_numeral k) (e - 1) (p / 2) x)"
  by (simp add: numeral_eq_Suc)

lemmas round64_eval = round64_def expo_def round_even_def pow2_def Let_def
  expo_up_numeral expo_down_numeral


text \<open>
  An interest rate of \<open>2^-50\<close> percent, about \<open>8.9e-16\<close>. The monthly rate is positive,
  and \<open>1 + monthlyRate\<close> rounds to \<open>1\<close>.
\<close>

lemma monthlyRate64_tiny:
  "monthlyRate64
     \<lparr> totalDebt = d, annualSalary = s, interestRate = 1 / 2 ^ 50, repaymentTerm = t \<rparr> =
   Finite (7686143364045647 / 10384593717069655257060992658440192)"
  by (simp add: monthlyRate64_def round64_eval)

lemma one_plus_tiny:
  "add64 (Finite 1) (Finite (7686143364045647 / 10384593717069655257060992658440192)) =
   Finite 1"
  by (simp add: round64_eval)

lemma totalPayments64_one_year:
  "totalPayments64
     \<lparr> totalDebt = d, annualSalary = s, interestRate = r, repaymentTerm = 1 \<rparr> = Finite 12"
  by (simp add: totalPayments64_def round64_eval)

lemma monthlyGrossIncome64_50000:
  "monthlyGrossIncome64
     \<lparr> totalDebt = d, annualSalary = 50000, interestRate = r, repaymentTerm = t \<rparr> =
   Finite (4581298449066667 / 1099511627776)"
  by (simp add: monthlyGrossIncome64_def round64_eval)

lemma amortising_denominator_tiny_rate:
  assumes "mpow (Finite 1) (Finite 12) = Finite 1"
  shows "sub64
     (mpow
        (add64 (Finite 1)
           (monthlyRate64
              \<lparr> totalDebt = d, annualSalary = s, interestRate = 1 / 2 ^ 50, repaymentTerm = 1 \<rparr>))
        (totalPayments64
           \<lparr> totalDebt = d, annualSalary = s, interestRate = 1 / 2 ^ 50, repaymentTerm = 1 \<rparr>))
     (Finite 1) = Finite 0"
  unfolding monthlyRate64_tiny totalPayments64_one_year one_plus_tiny assms
  by (simp add: sub64_def round64_eval)

lemma monthlyPayment64_tiny_rate:
  assumes "mpow (Finite 1) (Finite 12) = Finite 1"
  shows "monthlyPayment64 mpow
     \<lparr> totalDebt = 1200, annualSalary = 50000, interestRate = 1 / 2 ^ 50, repaymentTerm = 1 \<rparr> =
   PosInf"
  unfolding monthlyPayment64_def monthlyRate64_tiny totalPayments64_one_year one_plus_tiny assms
  by (simp add: sub64_def round64_eval)

lemma monthlyPayment64_tiny_rate_zero_debt:
  assumes "mpow (Finite 1) (Finite 12) = Finite 1"
  shows "monthlyPayment64 mpow
     \<lparr> totalDebt = 0, annualSalary = 50000, interestRate = 1 / 2 ^ 50, repaymentTerm = 1 \<rparr> =
   NaN"
  unfolding monthlyPayment64_def monthlyRate64_tiny totalPayments64_one_year one_plus_tiny assms
  by (simp add: sub64_def round64_eval)

lemma paymentToIncomeRatio64_tiny_rate:
  assumes "mpow (Finite 1) (Finite 12) = Finite 1"
  shows "paymentToIncomeRatio64 mpow
     \<lparr> totalDebt = 1200, annualSalary = 50000, interestRate = 1 / 2 ^ 50, repaymentTerm = 1 \<rparr> =
   PosInf"
  unfolding paymentToIncomeRatio64_def monthlyGrossIncome64_50000
    monthlyPayment64_tiny_rate [where mpow = mpow, OF assms]
  by simp

lemma paymentToIncomeRatio64_tiny_rate_zero_debt:
  assumes "mpow (Finite 1) (Finite 12) = Finite 1"
  shows "paymentToIncomeRatio64 mpow
     \<lparr> totalDebt = 0, annualSalary = 50000, interestRate = 1 / 2 ^ 50, repaymentTerm = 1 \<rparr> =
   NaN"
  unfolding paymentToIncomeRatio64_def monthlyGrossIncome64_50000
    monthlyPayment64_tiny_rate_zero_debt [where mpow = mpow, OF assms]
  by simp

lemma rounded_power_one: "rounded_power (Finite 1) (Finite 12) = Finite 1"
  by (simp add: rounded_power_def round64_eval)






section \<open>The claims\<close>

text \<open>
  C1. For every non-negative input the computed \<open>monthlyPayment\<close> is the three-branch
  value of the specification, with the interest-bearing case tested first: the
  amortising formula when \<open>monthlyRate > 0\<close> and \<open>totalPayments > 0\<close>, the straight-line
  \<open>totalDebt / totalPayments\<close> when only \<open>totalPayments > 0\<close>, and \<open>0\<close> otherwise. In
  particular a zero interest rate with a positive term gives exactly
  \<open>totalDebt / (repaymentTerm * 12)\<close>, and a zero term gives \<open>0\<close>.
\<close>

theorem monthlyPayment_three_branches:
  assumes "0 \<le> totalDebt vals" "0 \<le> annualSalary vals" "0 \<le> interestRate vals"
    "0 \<le> repaymentTerm vals"
  shows "monthlyPayment vals =
      Some (spec_monthlyPayment (totalDebt vals) (interestRate vals) (nat (repaymentTerm vals))) \<and>
    (interestRate vals = 0 \<and> 0 < repaymentTerm vals \<longrightarrow>
      monthlyPayment vals = Some (totalDebt vals / (real_of_int (repaymentTerm vals) * 12))) \<and>
    (repaymentTerm vals = 0 \<longrightarrow> monthlyPayment vals = Some 0)"
proof -
  have n: "nat (repaymentTerm vals) * 12 = nat (totalPayments vals)"
    using assms(4) by (simp add: totalPayments_def nat_mult_distrib)
  have first: "monthlyPayment vals =
      Some (spec_monthlyPayment (totalDebt vals) (interestRate vals) (nat (repaymentTerm vals)))"
  proof (cases "0 < totalPayments vals")
    case False
    then show ?thesis
      by (simp add: monthlyPayment_zero spec_monthlyPayment_def n)
  next
    case tp: True
    show ?thesis
    proof (cases "0 < monthlyRate vals")
      case True
      then show ?thesis
        using tp monthlyPayment_amortized [OF True tp]
        by (simp add: spec_monthlyPayment_def n monthlyRate_def Let_def)
    next
      case False
      then show ?thesis
        using tp monthlyPayment_linear [OF False tp]
        by (simp add: spec_monthlyPayment_def n monthlyRate_def Let_def)
    qed
  qed
  have second: "monthlyPayment vals =
      Some (totalDebt vals / (real_of_int (repaymentTerm vals) * 12))"
    if "interestRate vals = 0" "0 < repaymentTerm vals"
    using that by (simp add: monthlyPayment_def monthlyRate_def totalPayments_def js_div_def)
  have third: "monthlyPayment vals = Some 0" if "repaymentTerm vals = 0"
    using that by (simp add: monthlyPayment_def totalPayments_def)
  show ?thesis using first second third by blast
qed

theorem monthlyPayment_three_branches_witness:
  "monthlyPayment \<lparr> totalDebt = 1200, annualSalary = 50000, interestRate = 12, repaymentTerm = 1 \<rparr> =
     Some (12 * (101 / 100) ^ 12 / ((101 / 100) ^ 12 - 1)) \<and>
   monthlyPayment \<lparr> totalDebt = 1200, annualSalary = 50000, interestRate = 0, repaymentTerm = 1 \<rparr> =
     Some 100 \<and>
   monthlyPayment \<lparr> totalDebt = 1200, annualSalary = 50000, interestRate = 5, repaymentTerm = 0 \<rparr> =
     Some 0"
  using
    monthlyPayment_three_branches
      [of "\<lparr> totalDebt = 1200, annualSalary = 50000, interestRate = 12, repaymentTerm = 1 \<rparr>"]
    monthlyPayment_three_branches
      [of "\<lparr> totalDebt = 1200, annualSalary = 50000, interestRate = 0, repaymentTerm = 1 \<rparr>"]
    monthlyPayment_three_branches
      [of "\<lparr> totalDebt = 1200, annualSalary = 50000, interestRate = 5, repaymentTerm = 0 \<rparr>"]
  by (simp add: spec_monthlyPayment_def)

text \<open>
  C2. The classification of lines 42 to 50 partitions the reals: the status is
  \<open>Stretched\<close> exactly when the ratio is above 20, \<open>Moderate\<close> exactly when it is above
  10 and at most 20, and \<open>Comfortable\<close> exactly when it is at most 10. The comparisons
  are strict, so a ratio of exactly 10 is \<open>Comfortable\<close> and one of exactly 20 is
  \<open>Moderate\<close>. (By \<open>App_fields\<close>, \<open>App\<close> applies this function to its own
  \<open>paymentToIncomeRatio\<close>.)
\<close>

theorem affordabilityStatus_partition:
  "(affordabilityStatus p = ''Stretched'') = (20 < p) \<and>
   (affordabilityStatus p = ''Moderate'') = (10 < p \<and> p \<le> 20) \<and>
   (affordabilityStatus p = ''Comfortable'') = (p \<le> 10) \<and>
   affordabilityStatus 10 = ''Comfortable'' \<and>
   affordabilityStatus 20 = ''Moderate''"
  by (simp add: affordabilityStatus_def affordability_def)

text \<open>
  C3. With \<open>annualSalary = 0\<close> both ratios are \<open>0\<close>, whatever the debt, the rate and the
  term are: the two guards \<open>annualSalary > 0\<close> and \<open>monthlyGrossIncome > 0\<close> select the
  constant, no division is attempted, and the render has a result.
\<close>

theorem zero_salary_ratios_zero:
  assumes "annualSalary vals = 0"
  shows "debtToIncomeRatio vals = Some 0 \<and> paymentToIncomeRatio vals = Some 0 \<and>
    (\<exists>res. App vals = Some res \<and> out_debtToIncomeRatio res = 0 \<and>
       out_paymentToIncomeRatio res = 0)"
proof -
  have d: "debtToIncomeRatio vals = Some 0"
    using assms by (simp add: debtToIncomeRatio_def)
  have p: "paymentToIncomeRatio vals = Some 0"
    using assms by (simp add: paymentToIncomeRatio_def monthlyGrossIncome_def)
  obtain res where res: "App vals = Some res"
    using App_total by blast
  from App_fields(1,3) [OF res] d p
  have "out_debtToIncomeRatio res = 0" "out_paymentToIncomeRatio res = 0" by simp_all
  with d p res show ?thesis by blast
qed

theorem zero_salary_ratios_zero_witness:
  "debtToIncomeRatio
     \<lparr> totalDebt = 10000, annualSalary = 0, interestRate = 5, repaymentTerm = 10 \<rparr> = Some 0 \<and>
   paymentToIncomeRatio
     \<lparr> totalDebt = 10000, annualSalary = 0, interestRate = 5, repaymentTerm = 10 \<rparr> = Some 0 \<and>
   (\<exists>res.
      App \<lparr> totalDebt = 10000, annualSalary = 0, interestRate = 5, repaymentTerm = 10 \<rparr> =
        Some res \<and>
      out_debtToIncomeRatio res = 0 \<and> out_paymentToIncomeRatio res = 0)"
  using zero_salary_ratios_zero
      [of "\<lparr> totalDebt = 10000, annualSalary = 0, interestRate = 5, repaymentTerm = 10 \<rparr>"]
  by simp

text \<open>
  C4. Monotonicity in \<open>totalDebt\<close>, on the code's own arithmetic. Take two inputs that
  agree on a salary of 50000, an interest rate of \<open>2^-50\<close> percent and a term of one year,
  with debts \<open>0 \<le> 1200\<close>. For any \<open>Math.pow\<close> that returns \<open>1\<close> at base \<open>1\<close>, the payment of
  the smaller debt is \<open>NaN\<close> and that of the larger debt is \<open>Infinity\<close>, and likewise the
  payment-to-income ratios. \<open>Infinity >= NaN\<close> is false: the larger debt does not yield a
  payment, or a ratio, greater than or equal to the other's. (In exact arithmetic the
  three outputs are monotone: \<open>exact_outputs_mono_in_totalDebt\<close>.)
\<close>

theorem larger_debt_not_ge_in_binary64:
  assumes "mpow (Finite 1) (Finite 12) = Finite 1"
  shows
    "monthlyPayment64 mpow
       \<lparr> totalDebt = 0, annualSalary = 50000, interestRate = 1 / 2 ^ 50, repaymentTerm = 1 \<rparr> =
       NaN \<and>
     monthlyPayment64 mpow
       \<lparr> totalDebt = 1200, annualSalary = 50000, interestRate = 1 / 2 ^ 50, repaymentTerm = 1 \<rparr> =
       PosInf \<and>
     \<not> ge64
       (monthlyPayment64 mpow
          \<lparr> totalDebt = 1200, annualSalary = 50000, interestRate = 1 / 2 ^ 50, repaymentTerm = 1 \<rparr>)
       (monthlyPayment64 mpow
          \<lparr> totalDebt = 0, annualSalary = 50000, interestRate = 1 / 2 ^ 50, repaymentTerm = 1 \<rparr>) \<and>
     \<not> ge64
       (paymentToIncomeRatio64 mpow
          \<lparr> totalDebt = 1200, annualSalary = 50000, interestRate = 1 / 2 ^ 50, repaymentTerm = 1 \<rparr>)
       (paymentToIncomeRatio64 mpow
          \<lparr> totalDebt = 0, annualSalary = 50000, interestRate = 1 / 2 ^ 50, repaymentTerm = 1 \<rparr>)"
  unfolding monthlyPayment64_tiny_rate [where mpow = mpow, OF assms]
    monthlyPayment64_tiny_rate_zero_debt [where mpow = mpow, OF assms]
    paymentToIncomeRatio64_tiny_rate [where mpow = mpow, OF assms]
    paymentToIncomeRatio64_tiny_rate_zero_debt [where mpow = mpow, OF assms]
  by simp

theorem larger_debt_not_ge_in_binary64_witness:
  "rounded_power (Finite 1) (Finite 12) = Finite 1 \<and>
   monthlyPayment64 rounded_power
     \<lparr> totalDebt = 0, annualSalary = 50000, interestRate = 1 / 2 ^ 50, repaymentTerm = 1 \<rparr> =
     NaN \<and>
   monthlyPayment64 rounded_power
     \<lparr> totalDebt = 1200, annualSalary = 50000, interestRate = 1 / 2 ^ 50, repaymentTerm = 1 \<rparr> =
     PosInf \<and>
   \<not> ge64
     (monthlyPayment64 rounded_power
        \<lparr> totalDebt = 1200, annualSalary = 50000, interestRate = 1 / 2 ^ 50, repaymentTerm = 1 \<rparr>)
     (monthlyPayment64 rounded_power
        \<lparr> totalDebt = 0, annualSalary = 50000, interestRate = 1 / 2 ^ 50, repaymentTerm = 1 \<rparr>) \<and>
   \<not> ge64
     (paymentToIncomeRatio64 rounded_power
        \<lparr> totalDebt = 1200, annualSalary = 50000, interestRate = 1 / 2 ^ 50, repaymentTerm = 1 \<rparr>)
     (paymentToIncomeRatio64 rounded_power
        \<lparr> totalDebt = 0, annualSalary = 50000, interestRate = 1 / 2 ^ 50, repaymentTerm = 1 \<rparr>)"
  using larger_debt_not_ge_in_binary64 [of rounded_power] rounded_power_one
  by simp

text \<open>
  C5. Non-negative outputs, on the code's own arithmetic. At the non-negative input with
  debt 0, salary 50000, interest rate \<open>2^-50\<close> percent and a term of one year, and for any
  \<open>Math.pow\<close> that returns \<open>1\<close> at base \<open>1\<close>, the amortising denominator
  \<open>Math.pow(1 + monthlyRate, totalPayments) - 1\<close> is \<open>0\<close>, not positive, and the payment is
  \<open>0 / 0\<close>: \<open>monthlyPayment\<close> and \<open>paymentToIncomeRatio\<close> are \<open>NaN\<close>, and \<open>NaN >= 0\<close> is false.
  (In exact arithmetic the three outputs are non-negative: \<open>exact_outputs_nonneg\<close>.)
\<close>

theorem zero_debt_outputs_not_nonneg_in_binary64:
  assumes "mpow (Finite 1) (Finite 12) = Finite 1"
  shows
    "\<not> gt64
       (sub64
          (mpow
             (add64 (Finite 1)
                (monthlyRate64
                   \<lparr> totalDebt = 0, annualSalary = 50000, interestRate = 1 / 2 ^ 50,
                     repaymentTerm = 1 \<rparr>))
             (totalPayments64
                \<lparr> totalDebt = 0, annualSalary = 50000, interestRate = 1 / 2 ^ 50,
                  repaymentTerm = 1 \<rparr>))
          (Finite 1))
       (Finite 0) \<and>
     monthlyPayment64 mpow
       \<lparr> totalDebt = 0, annualSalary = 50000, interestRate = 1 / 2 ^ 50, repaymentTerm = 1 \<rparr> =
       NaN \<and>
     paymentToIncomeRatio64 mpow
       \<lparr> totalDebt = 0, annualSalary = 50000, interestRate = 1 / 2 ^ 50, repaymentTerm = 1 \<rparr> =
       NaN \<and>
     \<not> ge64
       (monthlyPayment64 mpow
          \<lparr> totalDebt = 0, annualSalary = 50000, interestRate = 1 / 2 ^ 50, repaymentTerm = 1 \<rparr>)
       (Finite 0) \<and>
     \<not> ge64
       (paymentToIncomeRatio64 mpow
          \<lparr> totalDebt = 0, annualSalary = 50000, interestRate = 1 / 2 ^ 50, repaymentTerm = 1 \<rparr>)
       (Finite 0)"
  unfolding amortising_denominator_tiny_rate [where mpow = mpow, OF assms]
    monthlyPayment64_tiny_rate_zero_debt [where mpow = mpow, OF assms]
    paymentToIncomeRatio64_tiny_rate_zero_debt [where mpow = mpow, OF assms]
  by simp

theorem zero_debt_outputs_not_nonneg_in_binary64_witness:
  "rounded_power (Finite 1) (Finite 12) = Finite 1 \<and>
   monthlyPayment64 rounded_power
     \<lparr> totalDebt = 0, annualSalary = 50000, interestRate = 1 / 2 ^ 50, repaymentTerm = 1 \<rparr> =
     NaN \<and>
   paymentToIncomeRatio64 rounded_power
     \<lparr> totalDebt = 0, annualSalary = 50000, interestRate = 1 / 2 ^ 50, repaymentTerm = 1 \<rparr> =
     NaN \<and>
   \<not> ge64
     (monthlyPayment64 rounded_power
        \<lparr> totalDebt = 0, annualSalary = 50000, interestRate = 1 / 2 ^ 50, repaymentTerm = 1 \<rparr>)
     (Finite 0) \<and>
   \<not> ge64
     (paymentToIncomeRatio64 rounded_power
        \<lparr> totalDebt = 0, annualSalary = 50000, interestRate = 1 / 2 ^ 50, repaymentTerm = 1 \<rparr>)
     (Finite 0)"
  using zero_debt_outputs_not_nonneg_in_binary64 [of rounded_power] rounded_power_one
  by simp

text \<open>
  C6. Guarded denominators, on the code's own arithmetic. Lines 25, 34 and 39 divide
  under a test that their denominator is positive. Line 32 divides by
  \<open>Math.pow(1 + monthlyRate, totalPayments) - 1\<close> under the test \<open>monthlyRate > 0 &&
  totalPayments > 0\<close>, which does not make that denominator non-zero. At the non-negative
  finite input with debt 1200, salary 50000, interest rate \<open>2^-50\<close> percent and a term of
  one year, and for any \<open>Math.pow\<close> that returns \<open>1\<close> at base \<open>1\<close>, both tests hold, the
  denominator is \<open>0\<close>, and the division by zero gives \<open>monthlyPayment = Infinity\<close> and
  \<open>paymentToIncomeRatio = Infinity\<close>. (In exact arithmetic no denominator is zero:
  \<open>exact_engine_total\<close>.)
\<close>

theorem amortising_division_by_zero_in_binary64:
  assumes "mpow (Finite 1) (Finite 12) = Finite 1"
  shows
    "gt64
       (monthlyRate64
          \<lparr> totalDebt = 1200, annualSalary = 50000, interestRate = 1 / 2 ^ 50, repaymentTerm = 1 \<rparr>)
       (Finite 0) \<and>
     gt64
       (totalPayments64
          \<lparr> totalDebt = 1200, annualSalary = 50000, interestRate = 1 / 2 ^ 50, repaymentTerm = 1 \<rparr>)
       (Finite 0) \<and>
     sub64
       (mpow
          (add64 (Finite 1)
             (monthlyRate64
                \<lparr> totalDebt = 1200, annualSalary = 50000, interestRate = 1 / 2 ^ 50,
                  repaymentTerm = 1 \<rparr>))
          (totalPayments64
             \<lparr> totalDebt = 1200, annualSalary = 50000, interestRate = 1 / 2 ^ 50,
               repaymentTerm = 1 \<rparr>))
       (Finite 1) = Finite 0 \<and>
     monthlyPayment64 mpow
       \<lparr> totalDebt = 1200, annualSalary = 50000, interestRate = 1 / 2 ^ 50, repaymentTerm = 1 \<rparr> =
       PosInf \<and>
     paymentToIncomeRatio64 mpow
       \<lparr> totalDebt = 1200, annualSalary = 50000, interestRate = 1 / 2 ^ 50, repaymentTerm = 1 \<rparr> =
       PosInf"
proof -
  let ?v = "\<lparr> totalDebt = 1200, annualSalary = 50000, interestRate = 1 / 2 ^ 50,
    repaymentTerm = 1 \<rparr>"
  have rate: "gt64 (monthlyRate64 ?v) (Finite 0)"
    unfolding monthlyRate64_tiny by simp
  have count: "gt64 (totalPayments64 ?v) (Finite 0)"
    unfolding totalPayments64_one_year by simp
  note den = amortising_denominator_tiny_rate [where mpow = mpow, OF assms]
  note pay = monthlyPayment64_tiny_rate [where mpow = mpow, OF assms]
  note ratio = paymentToIncomeRatio64_tiny_rate [where mpow = mpow, OF assms]
  from rate count den pay ratio show ?thesis by blast
qed

theorem amortising_division_by_zero_in_binary64_witness:
  "rounded_power (Finite 1) (Finite 12) = Finite 1 \<and>
   gt64
     (monthlyRate64
        \<lparr> totalDebt = 1200, annualSalary = 50000, interestRate = 1 / 2 ^ 50, repaymentTerm = 1 \<rparr>)
     (Finite 0) \<and>
   gt64
     (totalPayments64
        \<lparr> totalDebt = 1200, annualSalary = 50000, interestRate = 1 / 2 ^ 50, repaymentTerm = 1 \<rparr>)
     (Finite 0) \<and>
   monthlyPayment64 rounded_power
     \<lparr> totalDebt = 1200, annualSalary = 50000, interestRate = 1 / 2 ^ 50, repaymentTerm = 1 \<rparr> =
     PosInf \<and>
   paymentToIncomeRatio64 rounded_power
     \<lparr> totalDebt = 1200, annualSalary = 50000, interestRate = 1 / 2 ^ 50, repaymentTerm = 1 \<rparr> =
     PosInf"
  using amortising_division_by_zero_in_binary64 [of rounded_power] rounded_power_one
  by simp

text \<open>
  C8. Scenario B of the specification: a debt of 20000 at zero interest over 5 years on
  a salary of 80000 gives a monthly payment of \<open>20000 / 60\<close>, a payment-to-income ratio
  of exactly 5 and the status \<open>Comfortable\<close>.
\<close>

theorem scenario_B:
  "App \<lparr> totalDebt = 20000, annualSalary = 80000, interestRate = 0, repaymentTerm = 5 \<rparr> =
     Some \<lparr> out_debtToIncomeRatio = 1 / 4,
            out_monthlyPayment = 20000 / 60,
            out_paymentToIncomeRatio = 5,
            out_affordabilityStatus = ''Comfortable'',
            out_affordabilityColor = ''#16A34A'' \<rparr>"
  by (simp add: App_def debtToIncomeRatio_def monthlyPayment_def paymentToIncomeRatio_def
      monthlyRate_def totalPayments_def monthlyGrossIncome_def js_div_def
      affordabilityStatus_def affordabilityColor_def affordability_def)

text \<open>
  C9. \<open>debtToIncomeRatio\<close> depends on \<open>totalDebt\<close> and \<open>annualSalary\<close> only: two inputs
  that agree on these two fields have the same ratio, however their interest rates and
  repayment terms differ.
\<close>

theorem debtToIncomeRatio_ignores_rate_and_term:
  fixes a :: "'a DebtInput_scheme" and b :: "'b DebtInput_scheme"
  assumes "totalDebt a = totalDebt b" "annualSalary a = annualSalary b"
  shows "debtToIncomeRatio a = debtToIncomeRatio b \<and>
    (\<exists>ra rb. App a = Some ra \<and> App b = Some rb \<and>
       out_debtToIncomeRatio ra = out_debtToIncomeRatio rb)"
proof -
  have d: "debtToIncomeRatio a = debtToIncomeRatio b"
    using assms by (simp add: debtToIncomeRatio_def)
  obtain ra rb where ra: "App a = Some ra" and rb: "App b = Some rb"
    using App_total [of a] App_total [of b] by blast
  have "out_debtToIncomeRatio ra = out_debtToIncomeRatio rb"
    using App_fields(1) [OF ra] App_fields(1) [OF rb] d by simp
  with d ra rb show ?thesis by blast
qed

theorem debtToIncomeRatio_ignores_rate_and_term_witness:
  "debtToIncomeRatio
     \<lparr> totalDebt = 45000, annualSalary = 55000, interestRate = 12, repaymentTerm = 1 \<rparr> =
   debtToIncomeRatio
     \<lparr> totalDebt = 45000, annualSalary = 55000, interestRate = 3, repaymentTerm = 30 \<rparr> \<and>
   (\<exists>ra rb.
      App \<lparr> totalDebt = 45000, annualSalary = 55000, interestRate = 12, repaymentTerm = 1 \<rparr> =
        Some ra \<and>
      App \<lparr> totalDebt = 45000, annualSalary = 55000, interestRate = 3, repaymentTerm = 30 \<rparr> =
        Some rb \<and>
      out_debtToIncomeRatio ra = out_debtToIncomeRatio rb)"
  using debtToIncomeRatio_ignores_rate_and_term
      [of "\<lparr> totalDebt = 45000, annualSalary = 55000, interestRate = 12, repaymentTerm = 1 \<rparr>"
        "\<lparr> totalDebt = 45000, annualSalary = 55000, interestRate = 3, repaymentTerm = 30 \<rparr>"]
  by simp




end
